theory Spec2Isabelle
  imports Complex_Main
begin

section \<open>JavaScript numbers, arrays and errors\<close>

text \<open>
  A JavaScript number is a finite double, one of the two infinities, or NaN. Finite
  doubles are idealised here as exact reals: rounding, overflow of a finite
  computation and the sign of zero are not modelled. The special values are modelled
  with the IEEE rules the source relies on: NaN is contagious, \<open>x / 0\<close> is an infinity
  (NaN for \<open>0 / 0\<close>), \<open>Math.log(0)\<close> is \<open>-Infinity\<close>, every comparison with NaN is false.
\<close>

datatype jsnum = Num real | PInf | NInf | NaN

datatype error = RangeError | TypeError

fun is_finite :: "jsnum \<Rightarrow> bool" where
  "is_finite (Num r) = True"
| "is_finite PInf = False"
| "is_finite NInf = False"
| "is_finite NaN = False"

fun inf_of_sign :: "real \<Rightarrow> jsnum" where
  "inf_of_sign s = (if 0 < s then PInf else if s < 0 then NInf else NaN)"

fun jneg :: "jsnum \<Rightarrow> jsnum" where
  "jneg (Num a) = Num (- a)"
| "jneg PInf = NInf"
| "jneg NInf = PInf"
| "jneg NaN = NaN"

fun jadd :: "jsnum \<Rightarrow> jsnum \<Rightarrow> jsnum" where
  "jadd (Num a) (Num b) = Num (a + b)"
| "jadd (Num a) PInf = PInf"
| "jadd (Num a) NInf = NInf"
| "jadd PInf (Num b) = PInf"
| "jadd NInf (Num b) = NInf"
| "jadd PInf PInf = PInf"
| "jadd NInf NInf = NInf"
| "jadd PInf NInf = NaN"
| "jadd NInf PInf = NaN"
| "jadd NaN b = NaN"
| "jadd a NaN = NaN"

definition jsub :: "jsnum \<Rightarrow> jsnum \<Rightarrow> jsnum" where
  "jsub a b = jadd a (jneg b)"

fun jmul :: "jsnum \<Rightarrow> jsnum \<Rightarrow> jsnum" where
  "jmul (Num a) (Num b) = Num (a * b)"
| "jmul (Num a) PInf = inf_of_sign a"
| "jmul (Num a) NInf = inf_of_sign (- a)"
| "jmul PInf (Num b) = inf_of_sign b"
| "jmul NInf (Num b) = inf_of_sign (- b)"
| "jmul PInf PInf = PInf"
| "jmul NInf NInf = PInf"
| "jmul PInf NInf = NInf"
| "jmul NInf PInf = NInf"
| "jmul NaN b = NaN"
| "jmul a NaN = NaN"

fun jdiv :: "jsnum \<Rightarrow> jsnum \<Rightarrow> jsnum" where
  "jdiv (Num a) (Num b) = (if b = 0 then inf_of_sign a else Num (a / b))"
| "jdiv (Num a) PInf = Num 0"
| "jdiv (Num a) NInf = Num 0"
| "jdiv PInf (Num b) = (if b < 0 then NInf else PInf)"
| "jdiv NInf (Num b) = (if b < 0 then PInf else NInf)"
| "jdiv PInf PInf = NaN"
| "jdiv NInf NInf = NaN"
| "jdiv PInf NInf = NaN"
| "jdiv NInf PInf = NaN"
| "jdiv NaN b = NaN"
| "jdiv a NaN = NaN"

text \<open>The remainder \<open>a % b\<close> has the sign of the dividend (truncated division).\<close>

definition trunc :: "real \<Rightarrow> int" where
  "trunc r = (if 0 \<le> r then \<lfloor>r\<rfloor> else \<lceil>r\<rceil>)"

fun jmod :: "jsnum \<Rightarrow> jsnum \<Rightarrow> jsnum" where
  "jmod (Num a) (Num b) = (if b = 0 then NaN else Num (a - b * of_int (trunc (a / b))))"
| "jmod (Num a) PInf = Num a"
| "jmod (Num a) NInf = Num a"
| "jmod PInf b = NaN"
| "jmod NInf b = NaN"
| "jmod NaN b = NaN"
| "jmod (Num a) NaN = NaN"

fun jfloor :: "jsnum \<Rightarrow> jsnum" where
  "jfloor (Num a) = Num (of_int \<lfloor>a\<rfloor>)"
| "jfloor PInf = PInf"
| "jfloor NInf = NInf"
| "jfloor NaN = NaN"

fun jsqrt :: "jsnum \<Rightarrow> jsnum" where
  "jsqrt (Num a) = (if a < 0 then NaN else Num (sqrt a))"
| "jsqrt PInf = PInf"
| "jsqrt NInf = NaN"
| "jsqrt NaN = NaN"

fun jlog :: "jsnum \<Rightarrow> jsnum" where
  "jlog (Num a) = (if a < 0 then NaN else if a = 0 then NInf else Num (ln a))"
| "jlog PInf = PInf"
| "jlog NInf = NaN"
| "jlog NaN = NaN"


fun jcos :: "jsnum \<Rightarrow> jsnum" where
  "jcos (Num a) = Num (cos a)"
| "jcos PInf = NaN"
| "jcos NInf = NaN"
| "jcos NaN = NaN"

fun jsin :: "jsnum \<Rightarrow> jsnum" where
  "jsin (Num a) = Num (sin a)"
| "jsin PInf = NaN"
| "jsin NInf = NaN"
| "jsin NaN = NaN"

text \<open>\<open>Math.pow(10, e)\<close>, the only power the source takes.\<close>

fun jpow10 :: "jsnum \<Rightarrow> jsnum" where
  "jpow10 (Num e) = Num (10 powr e)"
| "jpow10 PInf = PInf"
| "jpow10 NInf = Num 0"
| "jpow10 NaN = NaN"

fun jlt :: "jsnum \<Rightarrow> jsnum \<Rightarrow> bool" where
  "jlt (Num a) (Num b) = (a < b)"
| "jlt (Num a) PInf = True"
| "jlt (Num a) NInf = False"
| "jlt PInf b = False"
| "jlt NInf (Num b) = True"
| "jlt NInf PInf = True"
| "jlt NInf NInf = False"
| "jlt NaN b = False"
| "jlt (Num a) NaN = False"
| "jlt NInf NaN = False"

definition jgt :: "jsnum \<Rightarrow> jsnum \<Rightarrow> bool" where
  "jgt a b = jlt b a"

text \<open>\<open>Math.min\<close> and \<open>Math.max\<close> of two numbers: NaN if either is NaN.\<close>

definition jmin :: "jsnum \<Rightarrow> jsnum \<Rightarrow> jsnum" where
  "jmin a b = (if a = NaN \<or> b = NaN then NaN else if jlt b a then b else a)"

definition jmax :: "jsnum \<Rightarrow> jsnum \<Rightarrow> jsnum" where
  "jmax a b = (if a = NaN \<or> b = NaN then NaN else if jlt a b then b else a)"

text \<open>A number is falsy when it is 0 or NaN.\<close>

fun truthy :: "jsnum \<Rightarrow> bool" where
  "truthy (Num a) = (a \<noteq> 0)"
| "truthy PInf = True"
| "truthy NInf = True"
| "truthy NaN = False"

text \<open>\<open>v || d\<close> on numbers.\<close>

definition or_else :: "jsnum \<Rightarrow> jsnum \<Rightarrow> jsnum" where
  "or_else v d = (if truthy v then v else d)"

text \<open>
  An array is a list of slots; \<open>None\<close> is a hole (or a stored \<open>undefined\<close>: both read as
  \<open>undefined\<close>). \<open>new Array(n)\<close> is \<open>n\<close> holes. A read outside the array gives
  \<open>undefined\<close>, and \<open>undefined\<close> in arithmetic is NaN.
\<close>

type_synonym jsarray = "jsnum option list"

fun to_number :: "jsnum option \<Rightarrow> jsnum" where
  "to_number None = NaN"
| "to_number (Some v) = v"

definition js_get :: "jsarray \<Rightarrow> nat \<Rightarrow> jsnum option" where
  "js_get a i = (if i < length a then a ! i else None)"

text \<open>A read \<open>a[v]\<close> at a computed number \<open>v\<close>: defined only at an index of the array.\<close>

definition js_index :: "'a list \<Rightarrow> jsnum \<Rightarrow> 'a option" where
  "js_index a v =
     (case v of
        Num r \<Rightarrow> (if 0 \<le> r \<and> r = of_int \<lfloor>r\<rfloor> \<and> nat \<lfloor>r\<rfloor> < length a
                  then Some (a ! nat \<lfloor>r\<rfloor>) else None)
      | _ \<Rightarrow> None)"

text \<open>
  \<open>new Array(len)\<close> with a numeric argument: a RangeError unless \<open>len\<close> is an integer in
  \<open>[0, 2^32 - 1]\<close>. The result is the number of slots.
\<close>

definition array_length :: "jsnum \<Rightarrow> error + nat" where
  "array_length v =
     (case v of
        Num r \<Rightarrow> (if 0 \<le> r \<and> r = of_int \<lfloor>r\<rfloor> \<and> r \<le> 4294967295
                  then Inr (nat \<lfloor>r\<rfloor>) else Inl RangeError)
      | _ \<Rightarrow> Inl RangeError)"

text \<open>
  \<open>Array.from({length: v}, f)\<close>: the length is \<open>ToLength(v)\<close> (NaN and negative numbers
  give 0, fractions are truncated, \<open>Infinity\<close> gives \<open>2^53 - 1\<close>), and the array of
  that length is made by \<open>new Array\<close>, a RangeError above \<open>2^32 - 1\<close>.
\<close>

definition from_length :: "jsnum \<Rightarrow> error + nat" where
  "from_length v =
     (case v of
        Num r \<Rightarrow> (if r \<le> 0 then Inr 0
                  else if \<lfloor>r\<rfloor> \<le> 4294967295 then Inr (nat \<lfloor>r\<rfloor>) else Inl RangeError)
      | PInf \<Rightarrow> Inl RangeError
      | NInf \<Rightarrow> Inr 0
      | NaN \<Rightarrow> Inr 0)"

text \<open>\<open>a.map(f)\<close> leaves holes as holes and does not call \<open>f\<close> on them.\<close>

definition js_map :: "(jsnum \<Rightarrow> jsnum) \<Rightarrow> jsarray \<Rightarrow> jsarray" where
  "js_map f a = map (map_option f) a"

definition js_mapi :: "(jsnum \<Rightarrow> nat \<Rightarrow> jsnum) \<Rightarrow> jsarray \<Rightarrow> jsarray" where
  "js_mapi f a = map (\<lambda>i. map_option (\<lambda>t. f t i) (a ! i)) [0..<length a]"

text \<open>\<open>a.reduce((sum, val) => sum + val * val, 0)\<close>: \<open>reduce\<close> skips holes.\<close>

definition sum_squares :: "jsarray \<Rightarrow> jsnum" where
  "sum_squares a =
     foldl (\<lambda>sum slot. case slot of None \<Rightarrow> sum | Some val \<Rightarrow> jadd sum (jmul val val))
       (Num 0) a"

text \<open>
  \<open>Math.random()\<close> is modelled by an explicit stream of draws in \<open>[0, 1)\<close>: a call
  takes the head of the stream.
\<close>

type_synonym rng = "nat \<Rightarrow> real"

definition draws :: "nat \<Rightarrow> rng \<Rightarrow> real list \<times> rng" where
  "draws n u = (map u [0..<n], \<lambda>k. u (k + n))"

section \<open>SignalGenerator\<close>

record generator =
  sampleRate :: jsnum
  duration :: jsnum
  numSamples :: jsnum
  carrierFreq :: jsnum
  symbolRate :: jsnum
  snr :: jsnum
  modulationIndex :: jsnum
  messageFreq :: jsnum
  frequencyDeviation :: jsnum

definition constructor :: generator where
  "constructor =
     \<lparr> sampleRate = Num 44100,
       duration = Num 1,
       numSamples = jmul (Num 44100) (Num 1),
       carrierFreq = Num 1000,
       symbolRate = Num 100,
       snr = Num 20,
       modulationIndex = Num 0.5,
       messageFreq = Num 100,
       frequencyDeviation = Num 100 \<rparr>"

text \<open>
  The argument of \<open>updateParameters\<close>: each property is absent (\<open>undefined\<close>) or a
  number, as the caller produces them with \<open>parseFloat\<close>.
\<close>

record params =
  params_carrierFreq :: "jsnum option"
  params_symbolRate :: "jsnum option"
  params_snr :: "jsnum option"
  params_modulationIndex :: "jsnum option"
  params_messageFreq :: "jsnum option"
  params_frequencyDeviation :: "jsnum option"

definition updateParameters :: "params \<Rightarrow> generator \<Rightarrow> generator" where
  "updateParameters p g =
     g\<lparr> carrierFreq := or_else (to_number (params_carrierFreq p)) (carrierFreq g),
        symbolRate := or_else (to_number (params_symbolRate p)) (symbolRate g),
        snr := or_else (to_number (params_snr p)) (snr g),
        modulationIndex := or_else (to_number (params_modulationIndex p)) (modulationIndex g),
        messageFreq := or_else (to_number (params_messageFreq p)) (messageFreq g),
        frequencyDeviation :=
          or_else (to_number (params_frequencyDeviation p)) (frequencyDeviation g) \<rparr>"

text \<open>
  \<open>generateTimeArray\<close>: \<open>new Array(this.numSamples)\<close>, then one assignment per index
  below \<open>numSamples\<close>.
\<close>

definition generateTimeArray :: "generator \<Rightarrow> error + jsarray" where
  "generateTimeArray g =
     (case array_length (numSamples g) of
        Inl e \<Rightarrow> Inl e
      | Inr n \<Rightarrow>
          Inr (foldl (\<lambda>timeArray i. timeArray[i := Some (jdiv (Num (real i)) (sampleRate g))])
                 (replicate n None) [0..<n]))"

text \<open>
  \<open>addNoise\<close>: the Box-Muller step draws \<open>u1\<close> and \<open>u2\<close> for every sample that
  \<open>map\<close> visits.
\<close>

fun noise_map :: "jsnum \<Rightarrow> jsarray \<Rightarrow> rng \<Rightarrow> jsarray" where
  "noise_map noiseAmplitude [] u = []"
| "noise_map noiseAmplitude (None # signal) u = None # noise_map noiseAmplitude signal u"
| "noise_map noiseAmplitude (Some sample # signal) u =
     (let u1 = u 0;
          u2 = u 1;
          noise = jmul (jmul noiseAmplitude (jsqrt (jmul (Num (- 2)) (jlog (Num u1)))))
                    (jcos (jmul (Num (2 * pi)) (Num u2)))
      in Some (jadd sample noise) # noise_map noiseAmplitude signal (\<lambda>k. u (k + 2)))"

definition noise_amplitude :: "jsarray \<Rightarrow> jsnum \<Rightarrow> jsnum" where
  "noise_amplitude signal snrDb =
     (let signalPower = jdiv (sum_squares signal) (Num (real (length signal)));
          snrLinear = jpow10 (jdiv snrDb (Num 10));
          noisePower = jdiv signalPower snrLinear
      in jsqrt noisePower)"

definition addNoise :: "jsarray \<Rightarrow> jsnum \<Rightarrow> rng \<Rightarrow> jsarray" where
  "addNoise signal snrDb u = noise_map (noise_amplitude signal snrDb) signal u"

text \<open>A constellation point \<open>{x, y}\<close>; \<open>x\<close> may hold \<open>undefined\<close>.\<close>

record point =
  point_x :: "jsnum option"
  point_y :: jsnum

record signal =
  time :: jsarray
  realSignal :: jsarray
  imagSignal :: jsarray
  constellation :: "point list option"

text \<open>\<open>Math.cos(2 * Math.PI * f * t)\<close> and its sine.\<close>

definition cos_wave :: "jsnum \<Rightarrow> jsnum \<Rightarrow> jsnum" where
  "cos_wave f t = jcos (jmul (jmul (Num (2 * pi)) f) t)"

definition sin_wave :: "jsnum \<Rightarrow> jsnum \<Rightarrow> jsnum" where
  "sin_wave f t = jsin (jmul (jmul (Num (2 * pi)) f) t)"

definition generateAM :: "generator \<Rightarrow> rng \<Rightarrow> error + signal" where
  "generateAM g u =
     (case generateTimeArray g of
        Inl e \<Rightarrow> Inl e
      | Inr timeArray \<Rightarrow>
         (let carrier = js_map (cos_wave (carrierFreq g)) timeArray;
              message = js_map (cos_wave (messageFreq g)) timeArray;
              modulatedSignal =
                js_mapi (\<lambda>t i. jmul (jadd (Num 1)
                                        (jmul (modulationIndex g) (to_number (js_get message i))))
                                  (to_number (js_get carrier i))) timeArray;
              noisySignal = addNoise modulatedSignal (snr g) u
          in case array_length (numSamples g) of
               Inl e \<Rightarrow> Inl e
             | Inr n \<Rightarrow>
                 Inr \<lparr> time = timeArray,
                       realSignal = noisySignal,
                       imagSignal = replicate n (Some (Num 0)),
                       constellation = None \<rparr>))"

text \<open>
  The \<open>map\<close> callback of \<open>generateFM\<close> updates the running sum \<open>integratedMessage\<close>
  at every sample it visits.
\<close>

fun fm_map :: "generator \<Rightarrow> jsarray \<Rightarrow> jsnum \<Rightarrow> jsnum \<Rightarrow> nat \<Rightarrow> jsarray \<Rightarrow> jsarray" where
  "fm_map g message dt integratedMessage i [] = []"
| "fm_map g message dt integratedMessage i (None # timeArray) =
     None # fm_map g message dt integratedMessage (Suc i) timeArray"
| "fm_map g message dt integratedMessage i (Some t # timeArray) =
     (let integratedMessage' = jadd integratedMessage (jmul (to_number (js_get message i)) dt);
          instantPhase =
            jadd (jmul (jmul (Num (2 * pi)) (carrierFreq g)) t)
                 (jmul (jmul (jmul (Num (2 * pi)) (frequencyDeviation g)) (modulationIndex g))
                    integratedMessage')
      in Some (jcos instantPhase) # fm_map g message dt integratedMessage' (Suc i) timeArray)"

definition generateFM :: "generator \<Rightarrow> rng \<Rightarrow> error + signal" where
  "generateFM g u =
     (case generateTimeArray g of
        Inl e \<Rightarrow> Inl e
      | Inr timeArray \<Rightarrow>
         (let message = js_map (cos_wave (messageFreq g)) timeArray;
              dt = jdiv (Num 1) (sampleRate g);
              modulatedSignal = fm_map g message dt (Num 0) 0 timeArray;
              noisySignal = addNoise modulatedSignal (snr g) u
          in case array_length (numSamples g) of
               Inl e \<Rightarrow> Inl e
             | Inr n \<Rightarrow>
                 Inr \<lparr> time = timeArray,
                       realSignal = noisySignal,
                       imagSignal = replicate n (Some (Num 0)),
                       constellation = None \<rparr>))"

text \<open>
  The symbol-based generators share their set-up: \<open>samplesPerSymbol\<close>, \<open>numSymbols\<close>
  and the \<open>numSymbols\<close> draws of \<open>Array.from\<close>, which fails where its length does.
\<close>

definition samplesPerSymbol :: "generator \<Rightarrow> jsnum" where
  "samplesPerSymbol g = jfloor (jdiv (sampleRate g) (symbolRate g))"

definition numSymbols :: "generator \<Rightarrow> jsnum" where
  "numSymbols g = jfloor (jdiv (numSamples g) (samplesPerSymbol g))"

text \<open>
  Every loop over the samples computes \<open>symbolIndex = Math.floor(i / samplesPerSymbol)\<close>
  and pushes a constellation point when
  \<open>i % samplesPerSymbol === 0 && symbolIndex < bits.length\<close>.
\<close>

definition symbolIndex :: "generator \<Rightarrow> nat \<Rightarrow> jsnum" where
  "symbolIndex g i = jfloor (jdiv (Num (real i)) (samplesPerSymbol g))"

definition pushes_point :: "generator \<Rightarrow> nat \<Rightarrow> nat \<Rightarrow> bool" where
  "pushes_point g len i =
     (jmod (Num (real i)) (samplesPerSymbol g) = Num 0 \<and> jlt (symbolIndex g i) (Num (real len)))"

text \<open>
  \<open>generateBPSK\<close>. The bit of sample \<open>i\<close> is
  \<open>symbolIndex < bits.length ? bits[symbolIndex] : 1\<close>; the state of the loop is
  \<open>(modulatedReal, modulatedImag, constellation)\<close>.
\<close>

definition bpsk_bit :: "generator \<Rightarrow> jsnum list \<Rightarrow> nat \<Rightarrow> jsnum option" where
  "bpsk_bit g bits i =
     (if jlt (symbolIndex g i) (Num (real (length bits)))
      then js_index bits (symbolIndex g i) else Some (Num 1))"

definition bpsk_step ::
  "generator \<Rightarrow> jsarray \<Rightarrow> jsnum list \<Rightarrow> jsarray \<times> jsarray \<times> point list \<Rightarrow> nat
     \<Rightarrow> jsarray \<times> jsarray \<times> point list" where
  "bpsk_step g timeArray bits s i =
     (case s of (modulatedReal, modulatedImag, points) \<Rightarrow>
        (let bit = bpsk_bit g bits i;
             carrier = cos_wave (carrierFreq g) (to_number (js_get timeArray i))
         in (modulatedReal[i := Some (jmul (to_number bit) carrier)],
             modulatedImag[i := Some (Num 0)],
             if pushes_point g (length bits) i
             then points @ [\<lparr> point_x = bit, point_y = Num 0 \<rparr>]
             else points)))"

definition bpsk_loop ::
  "generator \<Rightarrow> jsarray \<Rightarrow> jsnum list \<Rightarrow> nat \<Rightarrow> jsarray \<times> jsarray \<times> point list" where
  "bpsk_loop g timeArray bits n =
     foldl (bpsk_step g timeArray bits) (replicate n None, replicate n None, []) [0..<n]"

text \<open>\<open>generateBPSK\<close> up to the noise step: the time array, the bits, the state after the loop
  and the rest of the random stream.\<close>

definition bpsk_modulate ::
  "generator \<Rightarrow> rng
     \<Rightarrow> error + jsarray \<times> jsnum list \<times> (jsarray \<times> jsarray \<times> point list) \<times> rng" where
  "bpsk_modulate g u =
     (case generateTimeArray g of
        Inl e \<Rightarrow> Inl e
      | Inr timeArray \<Rightarrow>
         (case from_length (numSymbols g) of
            Inl e \<Rightarrow> Inl e
          | Inr k \<Rightarrow>
             (case draws k u of (rs, u') \<Rightarrow>
               (let bits = map (\<lambda>r. if 0.5 < r then Num 1 else Num (- 1)) rs
                in case array_length (numSamples g) of
                     Inl e \<Rightarrow> Inl e
                   | Inr n \<Rightarrow> Inr (timeArray, bits, bpsk_loop g timeArray bits n, u')))))"

definition generateBPSK :: "generator \<Rightarrow> rng \<Rightarrow> error + signal" where
  "generateBPSK g u =
     (case bpsk_modulate g u of
        Inl e \<Rightarrow> Inl e
      | Inr (timeArray, bits, (modulatedReal, modulatedImag, points), u') \<Rightarrow>
          Inr \<lparr> time = timeArray,
                realSignal = addNoise modulatedReal (snr g) u',
                imagSignal = modulatedImag,
                constellation = Some points \<rparr>)"

text \<open>
  \<open>generateQPSK\<close>: a symbol is \<open>{i, q}\<close>; the \<open>switch\<close> on the dibit has no default,
  so a dibit outside \<open>0..3\<close> leaves the symbol \<open>undefined\<close>, and reading \<open>.i\<close> of
  \<open>undefined\<close> is a TypeError.
\<close>

record iq =
  iq_i :: jsnum
  iq_q :: jsnum

definition qpsk_symbol :: "real \<Rightarrow> iq option" where
  "qpsk_symbol r =
     (let dibit = \<lfloor>r * 4\<rfloor>
      in if dibit = 0 then Some \<lparr> iq_i = Num (1 / sqrt 2), iq_q = Num (1 / sqrt 2) \<rparr>
         else if dibit = 1 then Some \<lparr> iq_i = Num (- 1 / sqrt 2), iq_q = Num (1 / sqrt 2) \<rparr>
         else if dibit = 2 then Some \<lparr> iq_i = Num (- 1 / sqrt 2), iq_q = Num (- 1 / sqrt 2) \<rparr>
         else if dibit = 3 then Some \<lparr> iq_i = Num (1 / sqrt 2), iq_q = Num (- 1 / sqrt 2) \<rparr>
         else None)"

definition qpsk_pick :: "generator \<Rightarrow> iq option list \<Rightarrow> nat \<Rightarrow> iq option" where
  "qpsk_pick g symbols i =
     (if jlt (symbolIndex g i) (Num (real (length symbols)))
      then Option.bind (js_index symbols (symbolIndex g i)) id
      else Some \<lparr> iq_i = Num (1 / sqrt 2), iq_q = Num (1 / sqrt 2) \<rparr>)"

fun qpsk_loop ::
  "generator \<Rightarrow> jsarray \<Rightarrow> iq option list \<Rightarrow> nat list \<Rightarrow> jsarray \<times> jsarray \<times> point list
     \<Rightarrow> error + jsarray \<times> jsarray \<times> point list" where
  "qpsk_loop g timeArray symbols [] s = Inr s"
| "qpsk_loop g timeArray symbols (i # is) (modulatedReal, modulatedImag, points) =
     (let carrierI = cos_wave (carrierFreq g) (to_number (js_get timeArray i));
          carrierQ = sin_wave (carrierFreq g) (to_number (js_get timeArray i))
      in case qpsk_pick g symbols i of
           None \<Rightarrow> Inl TypeError
         | Some sy \<Rightarrow>
             qpsk_loop g timeArray symbols is
               (modulatedReal[i := Some (jmul (iq_i sy) carrierI)],
                modulatedImag[i := Some (jmul (iq_q sy) carrierQ)],
                if pushes_point g (length symbols) i
                then points @ [\<lparr> point_x = Some (iq_i sy), point_y = iq_q sy \<rparr>]
                else points))"

definition qpsk_modulate ::
  "generator \<Rightarrow> rng
     \<Rightarrow> error + jsarray \<times> iq option list \<times> (jsarray \<times> jsarray \<times> point list) \<times> rng" where
  "qpsk_modulate g u =
     (case generateTimeArray g of
        Inl e \<Rightarrow> Inl e
      | Inr timeArray \<Rightarrow>
         (case from_length (numSymbols g) of
            Inl e \<Rightarrow> Inl e
          | Inr k \<Rightarrow>
             (case draws k u of (rs, u') \<Rightarrow>
               (let symbols = map qpsk_symbol rs
                in case array_length (numSamples g) of
                     Inl e \<Rightarrow> Inl e
                   | Inr n \<Rightarrow>
                      (case qpsk_loop g timeArray symbols [0..<n]
                              (replicate n None, replicate n None, []) of
                         Inl e \<Rightarrow> Inl e
                       | Inr s \<Rightarrow> Inr (timeArray, symbols, s, u'))))))"

definition generateQPSK :: "generator \<Rightarrow> rng \<Rightarrow> error + signal" where
  "generateQPSK g u =
     (case qpsk_modulate g u of
        Inl e \<Rightarrow> Inl e
      | Inr (timeArray, symbols, (modulatedReal, modulatedImag, points), u') \<Rightarrow>
         (let combinedSignal =
                js_mapi (\<lambda>re idx. jsub re (to_number (js_get modulatedImag idx))) modulatedReal
          in Inr \<lparr> time = timeArray,
                   realSignal = addNoise combinedSignal (snr g) u',
                   imagSignal = modulatedImag,
                   constellation = Some points \<rparr>))"

text \<open>
  \<open>generateFSK\<close>. The bit of sample \<open>i\<close> is
  \<open>symbolIndex < bits.length ? bits[symbolIndex] : 0\<close>; the state of the loop is
  \<open>(modulatedSignal, constellation)\<close>.
\<close>

definition fsk_bit :: "generator \<Rightarrow> jsnum list \<Rightarrow> nat \<Rightarrow> jsnum option" where
  "fsk_bit g bits i =
     (if jlt (symbolIndex g i) (Num (real (length bits)))
      then js_index bits (symbolIndex g i) else Some (Num 0))"

definition fsk_step ::
  "generator \<Rightarrow> jsarray \<Rightarrow> jsnum list \<Rightarrow> jsarray \<times> point list \<Rightarrow> nat
     \<Rightarrow> jsarray \<times> point list" where
  "fsk_step g timeArray bits s i =
     (case s of (modulatedSignal, points) \<Rightarrow>
        (let freq0 = jsub (carrierFreq g) (frequencyDeviation g);
             freq1 = jadd (carrierFreq g) (frequencyDeviation g);
             bit = fsk_bit g bits i;
             freq = (if truthy (to_number bit) then freq1 else freq0)
         in (modulatedSignal[i := Some (cos_wave freq (to_number (js_get timeArray i)))],
             if pushes_point g (length bits) i
             then points @
                    [\<lparr> point_x = Some (if truthy (to_number bit) then Num 1 else Num (- 1)),
                       point_y = Num 0 \<rparr>]
             else points)))"

definition fsk_loop ::
  "generator \<Rightarrow> jsarray \<Rightarrow> jsnum list \<Rightarrow> nat \<Rightarrow> jsarray \<times> point list" where
  "fsk_loop g timeArray bits n =
     foldl (fsk_step g timeArray bits) (replicate n None, []) [0..<n]"

definition fsk_modulate ::
  "generator \<Rightarrow> rng \<Rightarrow> error + jsarray \<times> jsnum list \<times> (jsarray \<times> point list) \<times> rng" where
  "fsk_modulate g u =
     (case generateTimeArray g of
        Inl e \<Rightarrow> Inl e
      | Inr timeArray \<Rightarrow>
         (case from_length (numSymbols g) of
            Inl e \<Rightarrow> Inl e
          | Inr k \<Rightarrow>
             (case draws k u of (rs, u') \<Rightarrow>
               (let bits = map (\<lambda>r. if 0.5 < r then Num 1 else Num 0) rs
                in case array_length (numSamples g) of
                     Inl e \<Rightarrow> Inl e
                   | Inr n \<Rightarrow> Inr (timeArray, bits, fsk_loop g timeArray bits n, u')))))"

definition generateFSK :: "generator \<Rightarrow> rng \<Rightarrow> error + signal" where
  "generateFSK g u =
     (case fsk_modulate g u of
        Inl e \<Rightarrow> Inl e
      | Inr (timeArray, bits, (modulatedSignal, points), u') \<Rightarrow>
         (case array_length (numSamples g) of
            Inl e \<Rightarrow> Inl e
          | Inr n \<Rightarrow>
              Inr \<lparr> time = timeArray,
                    realSignal = addNoise modulatedSignal (snr g) u',
                    imagSignal = replicate n (Some (Num 0)),
                    constellation = Some points \<rparr>))"

text \<open>The single-sideband family.\<close>

definition generateVoiceLikeSignal :: "generator \<Rightarrow> jsarray \<Rightarrow> jsarray" where
  "generateVoiceLikeSignal g timeArray =
     js_map (\<lambda>t.
        jadd (jadd (jadd (jmul (Num 0.5) (sin_wave (messageFreq g) t))
                         (jmul (Num 0.3) (sin_wave (jmul (messageFreq g) (Num 1.5)) t)))
                   (jmul (Num 0.15) (sin_wave (jmul (messageFreq g) (Num 2.2)) t)))
             (jmul (Num 0.05) (sin_wave (jmul (messageFreq g) (Num 3.7)) t)))
       timeArray"

text \<open>
  \<open>approximateHilbertTransform\<close>: \<open>new Array(signal.length)\<close>, assigned from index 3
  on; the slots 0, 1 and 2 stay holes.
\<close>

definition approximateHilbertTransform :: "jsarray \<Rightarrow> jsarray" where
  "approximateHilbertTransform signal =
     foldl (\<lambda>hilbertSignal i.
              hilbertSignal[i := Some (jmul (Num 0.5)
                                        (jsub (to_number (js_get signal i))
                                              (to_number (js_get signal (i - 2)))))])
       (replicate (length signal) None) [3..<length signal]"

text \<open>
  The three single-sideband generators differ in the sign of the quadrature term only:
  \<open>generateLSB\<close> subtracts it, \<open>generateUSB\<close> adds it, \<open>generateSSB\<close> multiplies it by
  \<open>isLSB ? -1 : 1\<close>.
\<close>

definition ssb_result :: "generator \<Rightarrow> rng \<Rightarrow> jsarray \<Rightarrow> jsarray \<Rightarrow> jsarray \<Rightarrow> signal" where
  "ssb_result g u timeArray hilbertMessage modulatedSignal =
     \<lparr> time = timeArray,
       realSignal = addNoise modulatedSignal (snr g) u,
       imagSignal = hilbertMessage,
       constellation = None \<rparr>"

definition generateLSB :: "generator \<Rightarrow> rng \<Rightarrow> error + signal" where
  "generateLSB g u =
     (case generateTimeArray g of
        Inl e \<Rightarrow> Inl e
      | Inr timeArray \<Rightarrow>
         (let message = generateVoiceLikeSignal g timeArray;
              hilbertMessage = approximateHilbertTransform message;
              carrier = js_map (cos_wave (carrierFreq g)) timeArray;
              carrierShifted = js_map (sin_wave (carrierFreq g)) timeArray;
              modulatedSignal =
                js_mapi (\<lambda>t i. jsub (jmul (to_number (js_get message i))
                                            (to_number (js_get carrier i)))
                                      (jmul (to_number (js_get hilbertMessage i))
                                            (to_number (js_get carrierShifted i)))) timeArray
          in Inr (ssb_result g u timeArray hilbertMessage modulatedSignal)))"

definition generateUSB :: "generator \<Rightarrow> rng \<Rightarrow> error + signal" where
  "generateUSB g u =
     (case generateTimeArray g of
        Inl e \<Rightarrow> Inl e
      | Inr timeArray \<Rightarrow>
         (let message = generateVoiceLikeSignal g timeArray;
              hilbertMessage = approximateHilbertTransform message;
              carrier = js_map (cos_wave (carrierFreq g)) timeArray;
              carrierShifted = js_map (sin_wave (carrierFreq g)) timeArray;
              modulatedSignal =
                js_mapi (\<lambda>t i. jadd (jmul (to_number (js_get message i))
                                            (to_number (js_get carrier i)))
                                      (jmul (to_number (js_get hilbertMessage i))
                                            (to_number (js_get carrierShifted i)))) timeArray
          in Inr (ssb_result g u timeArray hilbertMessage modulatedSignal)))"

definition generateSSB :: "bool \<Rightarrow> generator \<Rightarrow> rng \<Rightarrow> error + signal" where
  "generateSSB isLSB g u =
     (case generateTimeArray g of
        Inl e \<Rightarrow> Inl e
      | Inr timeArray \<Rightarrow>
         (let message = generateVoiceLikeSignal g timeArray;
              hilbertMessage = approximateHilbertTransform message;
              carrier = js_map (cos_wave (carrierFreq g)) timeArray;
              carrierShifted = js_map (sin_wave (carrierFreq g)) timeArray;
              modulatedSignal =
                js_mapi (\<lambda>t i. jadd (jmul (to_number (js_get message i))
                                            (to_number (js_get carrier i)))
                                      (jmul (jmul (if isLSB then Num (- 1) else Num 1)
                                                  (to_number (js_get hilbertMessage i)))
                                            (to_number (js_get carrierShifted i)))) timeArray
          in Inr (ssb_result g u timeArray hilbertMessage modulatedSignal)))"

definition generateSignal :: "string \<Rightarrow> generator \<Rightarrow> rng \<Rightarrow> error + signal" where
  "generateSignal modulationType g u =
     (if modulationType = ''am'' then generateAM g u
      else if modulationType = ''fm'' then generateFM g u
      else if modulationType = ''bpsk'' then generateBPSK g u
      else if modulationType = ''qpsk'' then generateQPSK g u
      else if modulationType = ''fsk'' then generateFSK g u
      else if modulationType = ''lsb'' then generateLSB g u
      else if modulationType = ''usb'' then generateUSB g u
      else if modulationType = ''ssb'' then generateSSB False g u
      else generateAM g u)"

text \<open>
  \<open>computeFFT\<close>. The window \<open>fft\<close> is \<open>fftSize\<close> zeros, overwritten at \<open>i\<close> by
  \<open>signal[i * downsampleFactor]\<close> when that index is inside the signal;
  \<open>downsampleFactor = Math.floor(signal.length / fftSize)\<close> is the integer quotient of
  the two lengths.
\<close>

definition fftSize :: nat where
  "fftSize = 1024"

definition fft_window :: "jsarray \<Rightarrow> jsarray" where
  "fft_window signal =
     (let downsampleFactor = length signal div fftSize
      in foldl (\<lambda>fft i.
                  (let originalIndex = i * downsampleFactor
                   in if originalIndex < length signal
                      then fft[i := js_get signal originalIndex] else fft))
           (replicate fftSize (Some (Num 0))) [0..<fftSize])"

text \<open>The inner loop of the transform: the state is \<open>(real, imag)\<close>.\<close>

definition dft_step :: "jsarray \<Rightarrow> nat \<Rightarrow> jsnum \<times> jsnum \<Rightarrow> nat \<Rightarrow> jsnum \<times> jsnum" where
  "dft_step fft k s n =
     (case s of (re, im) \<Rightarrow>
        (let angle = jdiv (jmul (jmul (Num (- 2 * pi)) (Num (real k))) (Num (real n)))
                       (Num (real fftSize))
         in (jadd re (jmul (to_number (js_get fft n)) (jcos angle)),
             jadd im (jmul (to_number (js_get fft n)) (jsin angle)))))"

definition dft_bin :: "jsarray \<Rightarrow> nat \<Rightarrow> jsnum \<times> jsnum" where
  "dft_bin fft k = foldl (dft_step fft k) (Num 0, Num 0) [0..<fftSize]"

record spectrum =
  magnitude :: jsarray
  frequencies :: jsarray

definition fft_step :: "generator \<Rightarrow> jsarray \<Rightarrow> jsarray \<times> jsarray \<Rightarrow> nat \<Rightarrow> jsarray \<times> jsarray" where
  "fft_step g fft s k =
     (case s of (fftResult, freqs) \<Rightarrow>
        (case dft_bin fft k of (re, im) \<Rightarrow>
           (fftResult[k := Some (jdiv (jsqrt (jadd (jmul re re) (jmul im im)))
                                    (Num (real fftSize)))],
            freqs[k := Some (jdiv (jmul (Num (real k)) (sampleRate g))
                               (Num (real fftSize)))])))"

definition computeFFT :: "generator \<Rightarrow> jsarray \<Rightarrow> spectrum" where
  "computeFFT g signal =
     (let fft = fft_window signal
      in case foldl (fft_step g fft)
                (replicate (fftSize div 2) None, replicate (fftSize div 2) None)
                [0..<fftSize div 2] of
           (fftResult, freqs) \<Rightarrow> \<lparr> magnitude = fftResult, frequencies = freqs \<rparr>)"

section \<open>SignalAnalyzer\<close>

text \<open>
  \<open>estimateBandwidth\<close>: the \<open>switch\<close> sets the theoretical value; with a spectrum
  (\<open>fftData\<close> and its two arrays are there) the measured span is returned instead when
  it passes the test at the end. The argument \<open>symbolRate\<close> is the number the caller
  parsed; the frequency deviation is the constant 100 of the source.
\<close>

definition theoretical_bandwidth :: "string \<Rightarrow> jsnum \<Rightarrow> jsnum" where
  "theoretical_bandwidth modulationType symbolRate' =
     (if modulationType = ''am'' then jmul (Num 2) (or_else symbolRate' (Num 100))
      else if modulationType = ''fm''
        then jmul (Num 2) (jadd (Num 100) (or_else symbolRate' (Num 100)))
      else if modulationType = ''bpsk'' \<or> modulationType = ''qpsk'' then symbolRate'
      else if modulationType = ''fsk'' then jadd (jmul (Num 2) (Num 100)) symbolRate'
      else if modulationType = ''lsb'' \<or> modulationType = ''usb'' \<or> modulationType = ''ssb''
        then or_else symbolRate' (Num 100)
      else or_else symbolRate' (Num 100))"

text \<open>\<open>Math.max(...a)\<close>: \<open>-Infinity\<close> for no argument, NaN if any argument is.\<close>

definition math_max :: "jsarray \<Rightarrow> jsnum" where
  "math_max a = foldl jmax NInf (map to_number a)"

text \<open>
  The scan for \<open>minFreq\<close> and \<open>maxFreq\<close>: both start at \<open>frequencies[0]\<close> and are
  updated at every bin above the threshold. They are only ever used as numbers
  (\<open>Math.min\<close>, \<open>Math.max\<close>, the subtraction), so the start is taken as a number.
\<close>

definition span_step :: "spectrum \<Rightarrow> jsnum \<Rightarrow> jsnum \<times> jsnum \<Rightarrow> nat \<Rightarrow> jsnum \<times> jsnum" where
  "span_step fftData threshold s i =
     (case s of (minFreq, maxFreq) \<Rightarrow>
        if jgt (to_number (js_get (magnitude fftData) i)) threshold
        then (jmin minFreq (to_number (js_get (frequencies fftData) i)),
              jmax maxFreq (to_number (js_get (frequencies fftData) i)))
        else (minFreq, maxFreq))"

definition measuredBandwidth :: "spectrum \<Rightarrow> jsnum" where
  "measuredBandwidth fftData =
     (let peakMagnitude = math_max (magnitude fftData);
          threshold = jdiv peakMagnitude (Num 10);
          start = to_number (js_get (frequencies fftData) 0)
      in case foldl (span_step fftData threshold) (start, start)
                [0..<length (magnitude fftData)] of
           (minFreq, maxFreq) \<Rightarrow> jsub maxFreq minFreq)"

definition last_frequency :: "spectrum \<Rightarrow> jsnum" where
  "last_frequency fftData =
     (if frequencies fftData = [] then NaN
      else to_number (js_get (frequencies fftData) (length (frequencies fftData) - 1)))"

definition estimateBandwidth :: "spectrum option \<Rightarrow> string \<Rightarrow> jsnum \<Rightarrow> jsnum" where
  "estimateBandwidth fftData modulationType symbolRate' =
     (let bandwidth = theoretical_bandwidth modulationType symbolRate'
      in case fftData of
           None \<Rightarrow> bandwidth
         | Some d \<Rightarrow>
             if jgt (measuredBandwidth d) (Num 0)
                \<and> jlt (measuredBandwidth d) (jdiv (last_frequency d) (Num 2))
             then measuredBandwidth d
             else bandwidth)"

text \<open>
  \<open>estimateSnr\<close>: \<open>detrended\<close> is \<open>new Array(signal.length)\<close>, assigned at the indices
  from 4 to \<open>signal.length - 5\<close> (none when the signal has fewer than 9 samples); its
  other slots stay holes, which \<open>reduce\<close> skips, and the sum is divided by
  \<open>detrended.length\<close>.
\<close>

definition detrend :: "jsarray \<Rightarrow> jsarray" where
  "detrend signal =
     foldl (\<lambda>detrended i.
              (let avg = jdiv (jadd (jadd (jadd (jadd (to_number (js_get signal (i - 4)))
                                                      (to_number (js_get signal (i - 2))))
                                                (to_number (js_get signal i)))
                                          (to_number (js_get signal (i + 2))))
                                    (to_number (js_get signal (i + 4))))
                           (Num 5)
               in detrended[i := Some (jsub (to_number (js_get signal i)) avg)]))
       (replicate (length signal) None) [4..<length signal - 4]"


section \<open>Inputs of the examples\<close>

text \<open>A stream of draws that is constantly \<open>1/4\<close>.\<close>

definition quarter :: rng where
  "quarter = (\<lambda>k. 1 / 4)"

text \<open>\<open>updateParameters({symbolRate: 50000})\<close>: more symbols per second than samples.\<close>

definition fast_symbols :: params where
  "fast_symbols =
     \<lparr> params_carrierFreq = None,
       params_symbolRate = Some (Num 50000),
       params_snr = None,
       params_modulationIndex = None,
       params_messageFreq = None,
       params_frequencyDeviation = None \<rparr>"

text \<open>An update whose \<open>snr\<close> and \<open>modulationIndex\<close> are 0 and whose \<open>symbolRate\<close> is NaN.\<close>

definition falsy_update :: params where
  "falsy_update =
     \<lparr> params_carrierFreq = None,
       params_symbolRate = Some NaN,
       params_snr = Some (Num 0),
       params_modulationIndex = Some (Num 0),
       params_messageFreq = Some (Num 250),
       params_frequencyDeviation = None \<rparr>"


text \<open>A stream of draws that is constantly 0, the least value of \<open>Math.random()\<close>.\<close>

definition zero_draws :: rng where
  "zero_draws = (\<lambda>k. 0)"

text \<open>A spectrum of six bins, 10 Hz apart, whose only non-zero magnitude is at 10 Hz.\<close>

definition single_peak :: spectrum where
  "single_peak =
     \<lparr> magnitude = [Some (Num 0), Some (Num 1), Some (Num 0), Some (Num 0), Some (Num 0),
                     Some (Num 0)],
       frequencies = [Some (Num 0), Some (Num 10), Some (Num 20), Some (Num 30), Some (Num 40),
                       Some (Num 50)] \<rparr>"

text \<open>
  The measured span in the words of the specification, to compare with the scan of the
  source: the frequencies of exactly the bins whose magnitude exceeds
  \<open>peakMagnitude / 10\<close>, the difference of their maximum and minimum, and the choice
  between that span and the theoretical value.
\<close>

definition above_threshold :: "spectrum \<Rightarrow> jsnum list" where
  "above_threshold fftData =
     map (\<lambda>i. to_number (js_get (frequencies fftData) i))
       (filter (\<lambda>i. jgt (to_number (js_get (magnitude fftData) i))
                        (jdiv (math_max (magnitude fftData)) (Num 10)))
          [0..<length (magnitude fftData)])"

definition measuredBandwidth_spec :: "spectrum \<Rightarrow> jsnum" where
  "measuredBandwidth_spec fftData =
     (case above_threshold fftData of
        [] \<Rightarrow> NaN
      | f # fs \<Rightarrow> jsub (foldl jmax f fs) (foldl jmin f fs))"

definition estimateBandwidth_spec :: "spectrum \<Rightarrow> string \<Rightarrow> jsnum \<Rightarrow> jsnum" where
  "estimateBandwidth_spec fftData modulationType symbolRate' =
     (if jgt (measuredBandwidth_spec fftData) (Num 0)
         \<and> jlt (measuredBandwidth_spec fftData) (jdiv (last_frequency fftData) (Num 2))
      then measuredBandwidth_spec fftData
      else theoretical_bandwidth modulationType symbolRate')"









section \<open>Properties of the generator and the analyzer\<close>

subsection \<open>Numbers and sums of squares\<close>

lemma jadd_NaN_right [simp]: "jadd a NaN = NaN"
  by (cases a) simp_all

lemma jmul_NaN_right [simp]: "jmul a NaN = NaN"
  by (cases a) simp_all

lemma jdiv_NaN_right [simp]: "jdiv a NaN = NaN"
  by (cases a) simp_all

lemma jsub_NaN [simp]: "jsub a NaN = NaN" "jsub NaN b = NaN"
  by (simp_all add: jsub_def)

lemma jmin_Num [simp]: "jmin (Num a) (Num b) = Num (min a b)"
  by (simp add: jmin_def min_def)

lemma jmax_Num [simp]: "jmax (Num a) (Num b) = Num (max a b)"
  by (simp add: jmax_def max_def)

lemma sum_squares_foldl_NaN:
  "foldl (\<lambda>sum slot. case slot of None \<Rightarrow> sum | Some val \<Rightarrow> jadd sum (jmul val val)) NaN xs
   = NaN"
  by (induction xs) (simp_all split: option.split)

lemma sum_squares_NaN:
  assumes "Some NaN \<in> set xs"
  shows "sum_squares xs = NaN"
proof -
  from assms obtain ys zs where "xs = ys @ Some NaN # zs" by (meson split_list)
  then show ?thesis by (simp add: sum_squares_def sum_squares_foldl_NaN)
qed

lemma sum_squares_foldl_Num:
  "foldl (\<lambda>sum slot. case slot of None \<Rightarrow> sum | Some val \<Rightarrow> jadd sum (jmul val val)) (Num a)
     (map (\<lambda>x. Some (Num x)) xs) = Num (a + sum_list (map (\<lambda>x. x * x) xs))"
  by (induction xs arbitrary: a) (simp_all add: add.assoc)

lemma sum_squares_Num:
  "sum_squares (map (\<lambda>x. Some (Num x)) xs) = Num (sum_list (map (\<lambda>x. x * x) xs))"
  by (simp add: sum_squares_def sum_squares_foldl_Num)

lemma sum_list_squares_nonneg: "0 \<le> sum_list (map (\<lambda>x. x * x) (xs::real list))"
  by (induction xs) simp_all

subsection \<open>Arrays and loops\<close>

lemma length_fill_cond [simp]:
  "length (foldl (\<lambda>a i. if P i then a[i := f i] else a) a0 js) = length a0"
  by (induction js arbitrary: a0) simp_all

lemma nth_fill_cond:
  "j < length a0 \<Longrightarrow>
   foldl (\<lambda>a i. if P i then a[i := f i] else a) a0 [lo..<hi] ! j
     = (if lo \<le> j \<and> j < hi \<and> P j then f j else a0 ! j)"
proof (induction hi)
  case 0
  then show ?case by simp
next
  case (Suc hi)
  show ?case
  proof (cases "lo \<le> hi")
    case True
    then show ?thesis using Suc by (auto simp: nth_list_update less_Suc_eq)
  next
    case False
    then show ?thesis by auto
  qed
qed

lemma length_fill [simp]:
  "length (foldl (\<lambda>a i. a[i := f i]) a0 js) = length a0"
  by (induction js arbitrary: a0) simp_all

lemma nth_fill:
  "j < length a0 \<Longrightarrow>
   foldl (\<lambda>a i. a[i := f i]) a0 [lo..<hi] ! j = (if lo \<le> j \<and> j < hi then f j else a0 ! j)"
proof (induction hi)
  case 0
  then show ?case by simp
next
  case (Suc hi)
  show ?case
  proof (cases "lo \<le> hi")
    case True
    then show ?thesis using Suc by (auto simp: nth_list_update less_Suc_eq)
  next
    case False
    then show ?thesis by auto
  qed
qed

lemma array_length_nat:
  "n \<le> 4294967295 \<Longrightarrow> array_length (Num (real n)) = Inr n"
  by (simp add: array_length_def)

lemma from_length_nat:
  "n \<le> 4294967295 \<Longrightarrow> from_length (Num (real n)) = Inr n"
  by (simp add: from_length_def)

lemma array_length_Inr:
  "array_length v = Inr n \<Longrightarrow> v = Num (real n) \<and> n \<le> 4294967295"
proof (cases v)
  case (Num r)
  assume a: "array_length v = Inr n"
  with Num have h: "0 \<le> r" "r = of_int \<lfloor>r\<rfloor>" "r \<le> 4294967295" "n = nat \<lfloor>r\<rfloor>"
    by (auto simp: array_length_def split: if_splits)
  then have "real n = r" by (metis of_nat_nat zero_le_floor)
  with h Num show ?thesis by (auto simp: le_nat_iff)
qed (simp_all add: array_length_def)

lemma generateTimeArray_Inr:
  assumes "array_length (numSamples g) = Inr n"
  shows "\<exists>t. generateTimeArray g = Inr t \<and> length t = n
           \<and> (\<forall>i<n. t ! i = Some (jdiv (Num (real i)) (sampleRate g)))"
  using assms by (simp add: generateTimeArray_def nth_fill)

lemma length_noise_map [simp]: "length (noise_map a xs u) = length xs"
  by (induction a xs u rule: noise_map.induct) (simp_all add: Let_def)

lemma length_addNoise [simp]: "length (addNoise xs s u) = length xs"
  by (simp add: addNoise_def)

lemma length_js_map [simp]: "length (js_map f a) = length a"
  by (simp add: js_map_def)

lemma length_js_mapi [simp]: "length (js_mapi f a) = length a"
  by (simp add: js_mapi_def)

lemma length_fm_map [simp]: "length (fm_map g m dt acc i ts) = length ts"
  by (induction g m dt acc i ts rule: fm_map.induct) (simp_all add: Let_def)

lemma jmod_nat: "0 < s \<Longrightarrow> jmod (Num (real i)) (Num (real s)) = Num (real (i mod s))"
proof -
  assume s: "0 < s"
  have t: "trunc (real i / real s) = int (i div s)"
    by (simp add: trunc_def floor_divide_of_nat_eq)
  have "real i = real s * real (i div s) + real (i mod s)"
    by (metis of_nat_add of_nat_mult mult_div_mod_eq)
  then have "real i - real s * real (i div s) = real (i mod s)"
    by linarith
  with s t show ?thesis by simp
qed

lemma js_index_nat:
  "js_index a (Num (real k)) = (if k < length a then Some (a ! k) else None)"
  by (simp add: js_index_def)

lemma bpsk_foldl:
  "foldl (bpsk_step g ta bits) (re, im, ps) js =
     (foldl (\<lambda>a i. a[i := Some (jmul (to_number (bpsk_bit g bits i))
                                   (cos_wave (carrierFreq g) (to_number (js_get ta i))))]) re js,
      foldl (\<lambda>a i. a[i := Some (Num 0)]) im js,
      ps @ map (\<lambda>i. \<lparr> point_x = bpsk_bit g bits i, point_y = Num 0 \<rparr>)
             (filter (pushes_point g (length bits)) js))"
  by (induction js arbitrary: re im ps) (simp_all add: bpsk_step_def Let_def)

lemma fsk_foldl:
  "foldl (fsk_step g ta bits) (m, ps) js =
     (foldl (\<lambda>a i. a[i := Some (cos_wave
                (if truthy (to_number (fsk_bit g bits i))
                 then jadd (carrierFreq g) (frequencyDeviation g)
                 else jsub (carrierFreq g) (frequencyDeviation g))
                (to_number (js_get ta i)))]) m js,
      ps @ map (\<lambda>i. \<lparr> point_x = Some (if truthy (to_number (fsk_bit g bits i))
                                        then Num 1 else Num (- 1)),
                       point_y = Num 0 \<rparr>)
             (filter (pushes_point g (length bits)) js))"
  by (induction js arbitrary: m ps) (simp_all add: fsk_step_def Let_def)

lemma qpsk_loop_Inr:
  "\<forall>i\<in>set js. qpsk_pick g symbols i \<noteq> None \<Longrightarrow>
   qpsk_loop g ta symbols js (re, im, ps) =
     Inr (foldl (\<lambda>a i. a[i := Some (jmul (iq_i (the (qpsk_pick g symbols i)))
                                   (cos_wave (carrierFreq g) (to_number (js_get ta i))))]) re js,
      foldl (\<lambda>a i. a[i := Some (jmul (iq_q (the (qpsk_pick g symbols i)))
                                   (sin_wave (carrierFreq g) (to_number (js_get ta i))))]) im js,
      ps @ map (\<lambda>i. \<lparr> point_x = Some (iq_i (the (qpsk_pick g symbols i))),
                       point_y = iq_q (the (qpsk_pick g symbols i)) \<rparr>)
             (filter (pushes_point g (length symbols)) js))"
  by (induction js arbitrary: re im ps) (auto simp: Let_def)

lemma symbolIndex_nat:
  "samplesPerSymbol g = Num (real s) \<Longrightarrow> 0 < s \<Longrightarrow> symbolIndex g i = Num (real (i div s))"
  by (simp add: symbolIndex_def floor_divide_of_nat_eq)

lemma pushes_point_nat:
  "samplesPerSymbol g = Num (real s) \<Longrightarrow> 0 < s \<Longrightarrow>
   pushes_point g k i = (i mod s = 0 \<and> i div s < k)"
  by (simp add: pushes_point_def symbolIndex_nat jmod_nat del: jmod.simps)

lemma count_pushes:
  assumes "0 < (s::nat)"
  shows "length (filter (\<lambda>i. i mod s = 0 \<and> i div s < n div s) [0..<n]) = n div s"
proof -
  have "{i. i < n \<and> i mod s = 0 \<and> i div s < n div s} = (\<lambda>q. q * s) ` {..<n div s}"
  proof (intro set_eqI iffI)
    fix i assume "i \<in> {i. i < n \<and> i mod s = 0 \<and> i div s < n div s}"
    then have "i = (i div s) * s" "i div s < n div s" by auto
    then show "i \<in> (\<lambda>q. q * s) ` {..<n div s}" by blast
  next
    fix i assume "i \<in> (\<lambda>q. q * s) ` {..<n div s}"
    then obtain q where q: "i = q * s" "q < n div s" by auto
    then have "Suc q \<le> n div s" by simp
    then have "Suc q * s \<le> (n div s) * s" by (rule mult_le_mono1)
    also have "\<dots> \<le> n" by simp
    finally have "i < n" using q assms by simp
    with q assms show "i \<in> {i. i < n \<and> i mod s = 0 \<and> i div s < n div s}" by simp
  qed
  moreover have "inj_on (\<lambda>q. q * s) {..<n div s}"
    using assms by (simp add: inj_on_def)
  ultimately have "card {i. i < n \<and> i mod s = 0 \<and> i div s < n div s} = n div s"
    by (simp add: card_image)
  then show ?thesis by (simp add: length_filter_conv_card cong: conj_cong)
qed


lemma samplesPerSymbol_valid:
  assumes "sampleRate g = Num sr" "symbolRate g = Num sy" "0 < sy" "sy \<le> sr"
  shows "samplesPerSymbol g = Num (real (nat \<lfloor>sr / sy\<rfloor>))" "0 < nat \<lfloor>sr / sy\<rfloor>"
proof -
  have "1 \<le> sr / sy" using assms by simp
  then have "1 \<le> \<lfloor>sr / sy\<rfloor>" by linarith
  then show "0 < nat \<lfloor>sr / sy\<rfloor>" by simp
  then show "samplesPerSymbol g = Num (real (nat \<lfloor>sr / sy\<rfloor>))"
    using assms by (simp add: samplesPerSymbol_def)
qed

lemma numSymbols_nat:
  "numSamples g = Num (real n) \<Longrightarrow> samplesPerSymbol g = Num (real s) \<Longrightarrow> 0 < s \<Longrightarrow>
   numSymbols g = Num (real (n div s))"
  by (simp add: numSymbols_def floor_divide_of_nat_eq)

lemma generateAM_ok:
  assumes "array_length (numSamples g) = Inr n"
  shows "\<exists>r. generateAM g u = Inr r \<and> length (time r) = n \<and> length (realSignal r) = n
           \<and> imagSignal r = replicate n (Some (Num 0)) \<and> constellation r = None"
proof -
  obtain t where "generateTimeArray g = Inr t" "length t = n"
    using generateTimeArray_Inr [OF assms] by blast
  then show ?thesis using assms by (simp add: generateAM_def Let_def)
qed

lemma generateFM_ok:
  assumes "array_length (numSamples g) = Inr n"
  shows "\<exists>r. generateFM g u = Inr r \<and> length (time r) = n \<and> length (realSignal r) = n
           \<and> imagSignal r = replicate n (Some (Num 0)) \<and> constellation r = None"
proof -
  obtain t where "generateTimeArray g = Inr t" "length t = n"
    using generateTimeArray_Inr [OF assms] by blast
  then show ?thesis using assms by (simp add: generateFM_def Let_def)
qed

lemma fill_all:
  "foldl (\<lambda>a i. a[i := f i]) (replicate n v) [0..<n] = map f [0..<n]"
  by (rule nth_equalityI) (simp_all add: nth_fill)

lemma bpsk_modulate_ok:
  assumes "array_length (numSamples g) = Inr n" "samplesPerSymbol g = Num (real s)" "0 < s"
  shows "\<exists>t bits m im ps u'. bpsk_modulate g u = Inr (t, bits, (m, im, ps), u')
           \<and> generateTimeArray g = Inr t \<and> length t = n
           \<and> bits = map (\<lambda>r. if 0.5 < r then Num 1 else Num (- 1)) (map u [0..<n div s])
           \<and> m = map (\<lambda>i. Some (jmul (to_number (bpsk_bit g bits i))
                                   (cos_wave (carrierFreq g) (to_number (js_get t i))))) [0..<n]
           \<and> im = replicate n (Some (Num 0))
           \<and> ps = map (\<lambda>i. \<lparr> point_x = bpsk_bit g bits i, point_y = Num 0 \<rparr>)
                    (filter (\<lambda>i. i mod s = 0 \<and> i div s < n div s) [0..<n])"
proof -
  obtain t where t: "generateTimeArray g = Inr t" "length t = n"
    using generateTimeArray_Inr [OF assms(1)] by blast
  have n: "numSamples g = Num (real n)" "n \<le> 4294967295"
    using array_length_Inr [OF assms(1)] by simp_all
  have "n div s \<le> n" by simp
  with n have "n div s \<le> 4294967295" by linarith
  then have k: "from_length (numSymbols g) = Inr (n div s)"
    using numSymbols_nat [OF n(1) assms(2,3)] by (simp add: from_length_nat)
  show ?thesis
    using t k assms
    by (simp add: bpsk_modulate_def draws_def bpsk_loop_def bpsk_foldl fill_all
        map_replicate_const Let_def pushes_point_nat [OF assms(2,3)] cong: filter_cong)
qed


lemma fsk_modulate_ok:
  assumes "array_length (numSamples g) = Inr n" "samplesPerSymbol g = Num (real s)" "0 < s"
  shows "\<exists>t bits m ps u'. fsk_modulate g u = Inr (t, bits, (m, ps), u')
           \<and> generateTimeArray g = Inr t \<and> length t = n
           \<and> bits = map (\<lambda>r. if 0.5 < r then Num 1 else Num 0) (map u [0..<n div s])
           \<and> m = map (\<lambda>i. Some (cos_wave
                         (if truthy (to_number (fsk_bit g bits i))
                          then jadd (carrierFreq g) (frequencyDeviation g)
                          else jsub (carrierFreq g) (frequencyDeviation g))
                         (to_number (js_get t i)))) [0..<n]
           \<and> ps = map (\<lambda>i. \<lparr> point_x = Some (if truthy (to_number (fsk_bit g bits i))
                                                then Num 1 else Num (- 1)),
                               point_y = Num 0 \<rparr>)
                    (filter (\<lambda>i. i mod s = 0 \<and> i div s < n div s) [0..<n])"
proof -
  obtain t where t: "generateTimeArray g = Inr t" "length t = n"
    using generateTimeArray_Inr [OF assms(1)] by blast
  have n: "numSamples g = Num (real n)" "n \<le> 4294967295"
    using array_length_Inr [OF assms(1)] by simp_all
  have "n div s \<le> n" by simp
  with n have "n div s \<le> 4294967295" by linarith
  then have k: "from_length (numSymbols g) = Inr (n div s)"
    using numSymbols_nat [OF n(1) assms(2,3)] by (simp add: from_length_nat)
  show ?thesis
    using t k assms
    by (simp add: fsk_modulate_def draws_def fsk_loop_def fsk_foldl fill_all
        Let_def pushes_point_nat [OF assms(2,3)] cong: filter_cong)
qed

lemma qpsk_symbol_Some:
  assumes "0 \<le> r" "r < 1"
  shows "\<exists>sy. qpsk_symbol r = Some sy"
proof -
  have "0 \<le> \<lfloor>r * 4\<rfloor>" "\<lfloor>r * 4\<rfloor> < 4" using assms by (simp_all add: floor_less_iff)
  then have "\<lfloor>r * 4\<rfloor> = 0 \<or> \<lfloor>r * 4\<rfloor> = 1 \<or> \<lfloor>r * 4\<rfloor> = 2 \<or> \<lfloor>r * 4\<rfloor> = 3" by linarith
  then show ?thesis by (auto simp: qpsk_symbol_def Let_def)
qed

lemma qpsk_pick_Some:
  assumes "samplesPerSymbol g = Num (real s)" "0 < s" "\<forall>sy\<in>set symbols. sy \<noteq> None"
  shows "qpsk_pick g symbols i \<noteq> None"
  using assms by (auto simp: qpsk_pick_def symbolIndex_nat js_index_nat)

lemma qpsk_modulate_ok:
  assumes "array_length (numSamples g) = Inr n" "samplesPerSymbol g = Num (real s)" "0 < s"
    and "\<forall>k. 0 \<le> u k \<and> u k < 1"
  shows "\<exists>t symbols m im ps u'. qpsk_modulate g u = Inr (t, symbols, (m, im, ps), u')
           \<and> generateTimeArray g = Inr t \<and> length t = n
           \<and> symbols = map qpsk_symbol (map u [0..<n div s])
           \<and> m = map (\<lambda>i. Some (jmul (iq_i (the (qpsk_pick g symbols i)))
                                   (cos_wave (carrierFreq g) (to_number (js_get t i))))) [0..<n]
           \<and> im = map (\<lambda>i. Some (jmul (iq_q (the (qpsk_pick g symbols i)))
                                   (sin_wave (carrierFreq g) (to_number (js_get t i))))) [0..<n]
           \<and> ps = map (\<lambda>i. \<lparr> point_x = Some (iq_i (the (qpsk_pick g symbols i))),
                               point_y = iq_q (the (qpsk_pick g symbols i)) \<rparr>)
                    (filter (\<lambda>i. i mod s = 0 \<and> i div s < n div s) [0..<n])"
proof -
  obtain t where t: "generateTimeArray g = Inr t" "length t = n"
    using generateTimeArray_Inr [OF assms(1)] by blast
  have n: "numSamples g = Num (real n)" "n \<le> 4294967295"
    using array_length_Inr [OF assms(1)] by simp_all
  have "n div s \<le> n" by simp
  with n have "n div s \<le> 4294967295" by linarith
  then have k: "from_length (numSymbols g) = Inr (n div s)"
    using numSymbols_nat [OF n(1) assms(2,3)] by (simp add: from_length_nat)
  define symbols where "symbols = map qpsk_symbol (map u [0..<n div s])"
  have "\<forall>sy\<in>set symbols. sy \<noteq> None"
    using assms(4) qpsk_symbol_Some by (fastforce simp: symbols_def)
  then have "\<forall>i\<in>set [0..<n]. qpsk_pick g symbols i \<noteq> None"
    using qpsk_pick_Some [OF assms(2,3)] by blast
  note loop = qpsk_loop_Inr [OF this, of t "replicate n None" "replicate n None" "[]"]
  have len: "length symbols = n div s" by (simp add: symbols_def)
  show ?thesis
    using t k assms(1) loop [unfolded symbols_def] len [unfolded symbols_def]
    by (simp add: qpsk_modulate_def draws_def fill_all
        Let_def pushes_point_nat [OF assms(2,3)] cong: filter_cong)
qed


lemma length_hilbert [simp]: "length (approximateHilbertTransform m) = length m"
  by (simp add: approximateHilbertTransform_def)

lemma length_voice [simp]: "length (generateVoiceLikeSignal g t) = length t"
  by (simp add: generateVoiceLikeSignal_def)

lemma generateLSB_ok:
  assumes "array_length (numSamples g) = Inr n"
  shows "\<exists>r. generateLSB g u = Inr r \<and> length (time r) = n \<and> length (realSignal r) = n
           \<and> length (imagSignal r) = n \<and> constellation r = None"
proof -
  obtain t where "generateTimeArray g = Inr t" "length t = n"
    using generateTimeArray_Inr [OF assms] by blast
  then show ?thesis by (simp add: generateLSB_def ssb_result_def Let_def)
qed

lemma generateUSB_ok:
  assumes "array_length (numSamples g) = Inr n"
  shows "\<exists>r. generateUSB g u = Inr r \<and> length (time r) = n \<and> length (realSignal r) = n
           \<and> length (imagSignal r) = n \<and> constellation r = None"
proof -
  obtain t where "generateTimeArray g = Inr t" "length t = n"
    using generateTimeArray_Inr [OF assms] by blast
  then show ?thesis by (simp add: generateUSB_def ssb_result_def Let_def)
qed

lemma generateSSB_ok:
  assumes "array_length (numSamples g) = Inr n"
  shows "\<exists>r. generateSSB b g u = Inr r \<and> length (time r) = n \<and> length (realSignal r) = n
           \<and> length (imagSignal r) = n \<and> constellation r = None"
proof -
  obtain t where "generateTimeArray g = Inr t" "length t = n"
    using generateTimeArray_Inr [OF assms] by blast
  then show ?thesis by (simp add: generateSSB_def ssb_result_def Let_def)
qed

lemma generateBPSK_ok:
  assumes "array_length (numSamples g) = Inr n" "samplesPerSymbol g = Num (real s)" "0 < s"
  shows "\<exists>r ps. generateBPSK g u = Inr r \<and> length (time r) = n \<and> length (realSignal r) = n
           \<and> imagSignal r = replicate n (Some (Num 0)) \<and> constellation r = Some ps
           \<and> length ps = n div s
           \<and> (\<forall>p\<in>set ps. (point_x p = Some (Num 1) \<or> point_x p = Some (Num (- 1)))
                 \<and> point_y p = Num 0)"
proof -
  obtain t bits m im ps u' where b: "bpsk_modulate g u = Inr (t, bits, (m, im, ps), u')"
    "length t = n"  "bits = map (\<lambda>r. if 0.5 < r then Num 1 else Num (- 1)) (map u [0..<n div s])"
    "m = map (\<lambda>i. Some (jmul (to_number (bpsk_bit g bits i))
                                   (cos_wave (carrierFreq g) (to_number (js_get t i))))) [0..<n]"
    "im = replicate n (Some (Num 0))"
    "ps = map (\<lambda>i. \<lparr> point_x = bpsk_bit g bits i, point_y = Num 0 \<rparr>)
                    (filter (\<lambda>i. i mod s = 0 \<and> i div s < n div s) [0..<n])"
    using bpsk_modulate_ok [OF assms, of u] by blast
  have len: "length ps = n div s" using b(6) count_pushes [OF assms(3)] by simp
  have bit: "bpsk_bit g bits i = Some (Num 1) \<or> bpsk_bit g bits i = Some (Num (- 1))"
    if "i div s < n div s" for i
    using that b(3) by (simp add: bpsk_bit_def symbolIndex_nat [OF assms(2,3)] js_index_nat)
  have pts: "\<forall>p\<in>set ps. (point_x p = Some (Num 1) \<or> point_x p = Some (Num (- 1)))
                 \<and> point_y p = Num 0"
    using bit by (auto simp: b(6))
  show ?thesis using b(1,2,4,5) len pts by (simp add: generateBPSK_def)
qed

lemma generateFSK_ok:
  assumes "array_length (numSamples g) = Inr n" "samplesPerSymbol g = Num (real s)" "0 < s"
  shows "\<exists>r ps. generateFSK g u = Inr r \<and> length (time r) = n \<and> length (realSignal r) = n
           \<and> imagSignal r = replicate n (Some (Num 0)) \<and> constellation r = Some ps
           \<and> length ps = n div s"
proof -
  obtain t bits m ps u' where b: "fsk_modulate g u = Inr (t, bits, (m, ps), u')"
    "length t = n" "length m = n"
    "ps = map (\<lambda>i. \<lparr> point_x = Some (if truthy (to_number (fsk_bit g bits i))
                                                then Num 1 else Num (- 1)),
                               point_y = Num 0 \<rparr>)
                    (filter (\<lambda>i. i mod s = 0 \<and> i div s < n div s) [0..<n])"
    using fsk_modulate_ok [OF assms, of u] by force
  have len: "length ps = n div s" using b(4) count_pushes [OF assms(3)] by simp
  show ?thesis using b(1,2,3) len assms(1) by (simp add: generateFSK_def)
qed

lemma generateQPSK_ok:
  assumes "array_length (numSamples g) = Inr n" "samplesPerSymbol g = Num (real s)" "0 < s"
    and "\<forall>k. 0 \<le> u k \<and> u k < 1"
  shows "\<exists>r ps. generateQPSK g u = Inr r \<and> length (time r) = n \<and> length (realSignal r) = n
           \<and> length (imagSignal r) = n \<and> constellation r = Some ps
           \<and> length ps = n div s"
proof -
  obtain t symbols m im ps u' where b: "qpsk_modulate g u = Inr (t, symbols, (m, im, ps), u')"
    "length t = n" "length m = n" "length im = n"
    "ps = map (\<lambda>i. \<lparr> point_x = Some (iq_i (the (qpsk_pick g symbols i))),
                               point_y = iq_q (the (qpsk_pick g symbols i)) \<rparr>)
                    (filter (\<lambda>i. i mod s = 0 \<and> i div s < n div s) [0..<n])"
    using qpsk_modulate_ok [OF assms, of ] by force
  have len: "length ps = n div s" using b(5) count_pushes [OF assms(3)] by simp
  show ?thesis using b(1,2,3,4) len by (simp add: generateQPSK_def Let_def)
qed

subsection \<open>Lengths of the generated sequences\<close>

lemma seven_cases:
  assumes "k = ka \<Longrightarrow> P" "k = kb \<Longrightarrow> P" "k = kc \<Longrightarrow> P" "k = kd \<Longrightarrow> P"
    "k = ke \<Longrightarrow> P" "k = kf \<Longrightarrow> P" "k = kg \<Longrightarrow> P"
    "k \<noteq> ka \<Longrightarrow> k \<noteq> kb \<Longrightarrow> k \<noteq> kc \<Longrightarrow> k \<noteq> kd \<Longrightarrow> k \<noteq> ke \<Longrightarrow> k \<noteq> kf
       \<Longrightarrow> k \<noteq> kg \<Longrightarrow> P"
  shows P
  using assms by blast

lemma generateSignal_default:
  "kind \<noteq> ''bpsk'' \<Longrightarrow> kind \<noteq> ''qpsk'' \<Longrightarrow> kind \<noteq> ''fsk'' \<Longrightarrow> kind \<noteq> ''fm'' \<Longrightarrow>
   kind \<noteq> ''lsb'' \<Longrightarrow> kind \<noteq> ''usb'' \<Longrightarrow> kind \<noteq> ''ssb'' \<Longrightarrow>
   generateSignal kind g u = generateAM g u"
  by (simp add: generateSignal_def)

text \<open>
  Claim C1, as amended. When \<open>numSamples = sampleRate \<times> duration\<close> is a whole number
  that an array can have as its length and, for the symbol-based kinds, the symbol rate is
  positive and at most the sample rate (and the draws of QPSK lie in \<open>[0, 1)\<close>),
  \<open>generateSignal\<close> returns a signal whose time, real and imaginary sequences have
  exactly \<open>round(sampleRate \<times> duration)\<close> elements, and the imaginary sequence is all
  zeros for AM, FM, BPSK and FSK.
\<close>

theorem generateSignal_lengths:
  assumes sr: "sampleRate g = Num sr" and d: "duration g = Num d"
    and ns: "numSamples g = jmul (sampleRate g) (duration g)"
    and n: "sr * d = real n" "n \<le> 4294967295"
    and sym: "kind \<in> {''bpsk'', ''qpsk'', ''fsk''} \<longrightarrow>
                (\<exists>sy. symbolRate g = Num sy \<and> 0 < sy \<and> sy \<le> sr)"
    and rnd: "kind = ''qpsk'' \<longrightarrow> (\<forall>k. 0 \<le> u k \<and> u k < 1)"
  shows "\<exists>r. generateSignal kind g u = Inr r
           \<and> length (time r) = nat (round (sr * d))
           \<and> length (realSignal r) = nat (round (sr * d))
           \<and> length (imagSignal r) = nat (round (sr * d))
           \<and> (kind \<in> {''am'', ''fm'', ''bpsk'', ''fsk''} \<longrightarrow>
                (\<forall>v\<in>set (imagSignal r). v = Some (Num 0)))"
proof -
  have len: "array_length (numSamples g) = Inr n"
    using sr d ns n by (simp add: array_length_nat)
  have rd: "nat (round (sr * d)) = n" using n(1) by simp
  have sps: "\<exists>s. samplesPerSymbol g = Num (real s) \<and> 0 < s"
    if "kind \<in> {''bpsk'', ''qpsk'', ''fsk''}"
  proof -
    from that sym obtain sy where "symbolRate g = Num sy" "0 < sy" "sy \<le> sr" by auto
    from samplesPerSymbol_valid [OF sr this] show ?thesis by blast
  qed
  show ?thesis
  proof (rule seven_cases [where k = kind and ka = "''bpsk''" and kb = "''qpsk''"
        and kc = "''fsk''" and kd = "''fm''" and ke = "''lsb''" and kf = "''usb''"
        and kg = "''ssb''"])
    assume 1: "kind = ''bpsk''"
    then obtain s where s: "samplesPerSymbol g = Num (real s)" "0 < s" using sps by auto
    from 1 have eq: "generateSignal kind g u = generateBPSK g u"
      by (simp add: generateSignal_def)
    from generateBPSK_ok [OF len s, of u] obtain r where
      "generateBPSK g u = Inr r" "length (time r) = n" "length (realSignal r) = n"
      "imagSignal r = replicate n (Some (Num 0))" by blast
    then show ?thesis by (simp add: eq rd)
  next
    assume 2: "kind = ''qpsk''"
    then obtain s where s: "samplesPerSymbol g = Num (real s)" "0 < s" using sps by auto
    from 2 rnd have "\<forall>k. 0 \<le> u k \<and> u k < 1" by simp
    from generateQPSK_ok [OF len s this] obtain r where
      "generateQPSK g u = Inr r" "length (time r) = n" "length (realSignal r) = n"
      "length (imagSignal r) = n" by blast
    then show ?thesis using 2 by (simp add: generateSignal_def rd)
  next
    assume 3: "kind = ''fsk''"
    then obtain s where s: "samplesPerSymbol g = Num (real s)" "0 < s" using sps by auto
    from 3 have eq: "generateSignal kind g u = generateFSK g u"
      by (simp add: generateSignal_def)
    from generateFSK_ok [OF len s, of u] obtain r where
      "generateFSK g u = Inr r" "length (time r) = n" "length (realSignal r) = n"
      "imagSignal r = replicate n (Some (Num 0))" by blast
    then show ?thesis by (simp add: eq rd)
  next
    assume 4: "kind = ''fm''"
    then have eq: "generateSignal kind g u = generateFM g u"
      by (simp add: generateSignal_def)
    from generateFM_ok [OF len, of u] obtain r where
      "generateFM g u = Inr r" "length (time r) = n" "length (realSignal r) = n"
      "imagSignal r = replicate n (Some (Num 0))" by blast
    then show ?thesis by (simp add: eq rd)
  next
    assume 5: "kind = ''lsb''"
    from generateLSB_ok [OF len, of u] obtain r where
      "generateLSB g u = Inr r" "length (time r) = n" "length (realSignal r) = n"
      "length (imagSignal r) = n" by blast
    then show ?thesis using 5 by (simp add: generateSignal_def rd)
  next
    assume 6: "kind = ''usb''"
    from generateUSB_ok [OF len, of u] obtain r where
      "generateUSB g u = Inr r" "length (time r) = n" "length (realSignal r) = n"
      "length (imagSignal r) = n" by blast
    then show ?thesis using 6 by (simp add: generateSignal_def rd)
  next
    assume 7: "kind = ''ssb''"
    from generateSSB_ok [OF len, of False u] obtain r where
      "generateSSB False g u = Inr r" "length (time r) = n" "length (realSignal r) = n"
      "length (imagSignal r) = n" by blast
    then show ?thesis using 7 by (simp add: generateSignal_def rd)
  next
    assume "kind \<noteq> ''bpsk''" "kind \<noteq> ''qpsk''" "kind \<noteq> ''fsk''" "kind \<noteq> ''fm''"
      "kind \<noteq> ''lsb''" "kind \<noteq> ''usb''" "kind \<noteq> ''ssb''"
    then have 8: "generateSignal kind g u = generateAM g u" by (rule generateSignal_default)
    from generateAM_ok [OF len, of u] obtain r where
      "generateAM g u = Inr r" "length (time r) = n" "length (realSignal r) = n"
      "imagSignal r = replicate n (Some (Num 0))" by blast
    then show ?thesis by (simp add: 8 rd)
  qed
qed

theorem generateSignal_lengths_witness:
  "sampleRate constructor = Num 44100 \<and> duration constructor = Num 1
   \<and> numSamples constructor = jmul (sampleRate constructor) (duration constructor)
   \<and> symbolRate constructor = Num 100
   \<and> (\<forall>k. 0 \<le> quarter k \<and> quarter k < 1)
   \<and> (\<exists>r. generateSignal ''qpsk'' constructor quarter = Inr r
           \<and> length (time r) = 44100 \<and> length (realSignal r) = 44100
           \<and> length (imagSignal r) = 44100)
   \<and> (\<exists>r. generateSignal ''fsk'' constructor quarter = Inr r
           \<and> length (time r) = 44100 \<and> length (realSignal r) = 44100
           \<and> length (imagSignal r) = 44100
           \<and> (\<forall>v\<in>set (imagSignal r). v = Some (Num 0)))"
  using generateSignal_lengths [of constructor 44100 1 44100 "''qpsk''" quarter]
    generateSignal_lengths [of constructor 44100 1 44100 "''fsk''" quarter]
  by (simp add: constructor_def quarter_def)

text \<open>
  Claim C1 as stated fails: with a symbol rate of 50000 (positive, hence valid) and the
  sample rate of 44100, \<open>samplesPerSymbol\<close> is 0, \<open>numSymbols\<close> is \<open>Infinity\<close>, and
  \<open>Array.from\<close> raises a RangeError: no sequences are returned.
\<close>

theorem generateSignal_lengths_counterexample:
  "generateSignal ''bpsk'' (updateParameters fast_symbols constructor) quarter = Inl RangeError"
proof -
  let ?g = "updateParameters fast_symbols constructor"
  have "array_length (numSamples ?g) = Inr 44100"
    by (simp add: updateParameters_def constructor_def array_length_def)
  then obtain t where "generateTimeArray ?g = Inr t"
    using generateTimeArray_Inr by blast
  moreover have "numSymbols ?g = PInf"
    by (simp add: numSymbols_def samplesPerSymbol_def updateParameters_def constructor_def
        fast_symbols_def or_else_def)
  ultimately show ?thesis
    by (simp add: generateSignal_def generateBPSK_def bpsk_modulate_def from_length_def)
qed

subsection \<open>updateParameters\<close>

text \<open>
  Claim C10. \<open>updateParameters\<close> ignores every supplied value that is falsy (0, NaN or
  \<open>undefined\<close>) and keeps the stored one; so \<open>snr\<close> and \<open>modulationIndex\<close> are 0 after
  the call only if they were 0 before it; and the fields the argument cannot mention
  (\<open>sampleRate\<close>, \<open>duration\<close>, \<open>numSamples\<close>) keep their values.
\<close>

theorem updateParameters_ignores_falsy:
  "(\<not> truthy (to_number (params_carrierFreq p)) \<longrightarrow>
      carrierFreq (updateParameters p g) = carrierFreq g)
   \<and> (\<not> truthy (to_number (params_symbolRate p)) \<longrightarrow>
      symbolRate (updateParameters p g) = symbolRate g)
   \<and> (\<not> truthy (to_number (params_snr p)) \<longrightarrow>
      snr (updateParameters p g) = snr g)
   \<and> (\<not> truthy (to_number (params_modulationIndex p)) \<longrightarrow>
      modulationIndex (updateParameters p g) = modulationIndex g)
   \<and> (\<not> truthy (to_number (params_messageFreq p)) \<longrightarrow>
      messageFreq (updateParameters p g) = messageFreq g)
   \<and> (\<not> truthy (to_number (params_frequencyDeviation p)) \<longrightarrow>
      frequencyDeviation (updateParameters p g) = frequencyDeviation g)
   \<and> (snr (updateParameters p g) = Num 0 \<longrightarrow> snr g = Num 0)
   \<and> (modulationIndex (updateParameters p g) = Num 0 \<longrightarrow> modulationIndex g = Num 0)
   \<and> sampleRate (updateParameters p g) = sampleRate g
   \<and> duration (updateParameters p g) = duration g
   \<and> numSamples (updateParameters p g) = numSamples g"
  by (auto simp: updateParameters_def or_else_def)

theorem updateParameters_ignores_falsy_witness:
  "\<not> truthy (to_number (params_snr falsy_update))
   \<and> \<not> truthy (to_number (params_modulationIndex falsy_update))
   \<and> \<not> truthy (to_number (params_symbolRate falsy_update))
   \<and> \<not> truthy (to_number (params_carrierFreq falsy_update))
   \<and> snr (updateParameters falsy_update constructor) = Num 20
   \<and> modulationIndex (updateParameters falsy_update constructor) = Num 0.5
   \<and> symbolRate (updateParameters falsy_update constructor) = Num 100
   \<and> carrierFreq (updateParameters falsy_update constructor) = Num 1000"
  using updateParameters_ignores_falsy [of falsy_update constructor]
  by (simp add: falsy_update_def constructor_def)

subsection \<open>Unknown modulation kinds\<close>

text \<open>
  Claim C2, as amended. For every modulation kind other than the eight known ones,
  \<open>generateSignal\<close> takes the \<open>default\<close> branch of its \<open>switch\<close> and behaves exactly
  as for \<open>'am'\<close>: no error is raised for the unknown kind.
\<close>

theorem unknown_kind_defaults_to_AM:
  assumes "kind \<notin> {''am'', ''fm'', ''bpsk'', ''qpsk'', ''fsk'', ''lsb'', ''usb'', ''ssb''}"
  shows "generateSignal kind g u = generateSignal ''am'' g u"
  using assms by (simp add: generateSignal_def)

theorem unknown_kind_defaults_to_AM_witness:
  "''xyz'' \<notin> {''am'', ''fm'', ''bpsk'', ''qpsk'', ''fsk'', ''lsb'', ''usb'', ''ssb''}
   \<and> generateSignal ''xyz'' constructor quarter = generateSignal ''am'' constructor quarter"
  using unknown_kind_defaults_to_AM [of "''xyz''" constructor quarter] by simp

text \<open>
  Claim C2 as stated fails: for the kind \<open>'xyz'\<close> the generator made by the constructor
  returns a signal of 44100 samples without a constellation, the AM signal, and no error.
\<close>

theorem unknown_kind_counterexample:
  "\<exists>r. generateSignal ''xyz'' constructor quarter = Inr r
         \<and> length (realSignal r) = 44100 \<and> constellation r = None"
proof -
  have "array_length (numSamples constructor) = Inr 44100"
    by (simp add: constructor_def array_length_def)
  from generateAM_ok [OF this, of quarter] show ?thesis
    by (auto simp: generateSignal_def)
qed

subsection \<open>The constellation\<close>




subsection \<open>Samples after the last symbol\<close>









subsection \<open>NaN and Infinity in the generated samples\<close>

lemma noise_map_NaN:
  "i < length xs \<Longrightarrow> xs ! i \<noteq> None \<Longrightarrow> noise_map NaN xs u ! i = Some NaN"
proof (induction NaN xs u arbitrary: i rule: noise_map.induct)
  case (1 u)
  then show ?case by simp
next
  case (2 signal u)
  then show ?case by (cases i) simp_all
next
  case (3 sample signal u)
  then show ?case by (cases i) (simp_all add: Let_def)
qed

lemma addNoise_NaN:
  assumes "Some NaN \<in> set xs" "i < length xs" "xs ! i \<noteq> None"
  shows "addNoise xs s u ! i = Some NaN"
  using assms by (simp add: addNoise_def noise_amplitude_def sum_squares_NaN noise_map_NaN)

lemma hilbert_holes:
  "i < 3 \<Longrightarrow> i < length m \<Longrightarrow> approximateHilbertTransform m ! i = None"
  by (simp add: approximateHilbertTransform_def nth_fill)

lemma lsb_signal_is_NaN:
  "\<exists>r. generateSignal ''lsb'' constructor u = Inr r
        \<and> length (realSignal r) = 44100
        \<and> realSignal r ! 0 = Some NaN
        \<and> realSignal r ! 22050 = Some NaN
        \<and> realSignal r ! 44099 = Some NaN
        \<and> imagSignal r ! 0 = None"
proof -
  have len: "array_length (numSamples constructor) = Inr 44100"
    by (simp add: constructor_def array_length_def)
  from generateTimeArray_Inr [OF len] obtain t where
    t: "generateTimeArray constructor = Inr t" "length t = 44100"
    "\<forall>i<44100. t ! i = Some (jdiv (Num (real i)) (sampleRate constructor))" by blast
  define message where "message = generateVoiceLikeSignal constructor t"
  define hilbertMessage where "hilbertMessage = approximateHilbertTransform message"
  define carrier where "carrier = js_map (cos_wave (carrierFreq constructor)) t"
  define carrierShifted where "carrierShifted = js_map (sin_wave (carrierFreq constructor)) t"
  define modulatedSignal where "modulatedSignal =
    js_mapi (\<lambda>t i. jsub (jmul (to_number (js_get message i)) (to_number (js_get carrier i)))
                       (jmul (to_number (js_get hilbertMessage i))
                             (to_number (js_get carrierShifted i)))) t"
  have r: "generateSignal ''lsb'' constructor u
           = Inr (ssb_result constructor u t hilbertMessage modulatedSignal)"
    by (simp add: generateSignal_def generateLSB_def t(1) Let_def message_def hilbertMessage_def
        carrier_def carrierShifted_def modulatedSignal_def)
  have lm: "length message = 44100" "length hilbertMessage = 44100"
    "length modulatedSignal = 44100"
    by (simp_all add: message_def hilbertMessage_def modulatedSignal_def t(2))
  have h0: "hilbertMessage ! 0 = None"
    unfolding hilbertMessage_def using lm(1) by (simp add: hilbert_holes)
  have some: "modulatedSignal ! i \<noteq> None" if "i < 44100" for i
    using that t(2,3) by (simp add: modulatedSignal_def js_mapi_def)
  have "modulatedSignal ! 0 = Some NaN"
    using t(2,3) h0 lm by (simp add: modulatedSignal_def js_mapi_def js_get_def)
  then have "Some NaN \<in> set modulatedSignal"
    using lm(3) by (metis nth_mem zero_less_numeral)
  then have "addNoise modulatedSignal (snr constructor) u ! i = Some NaN" if "i < 44100" for i
    using that lm(3) some by (simp add: addNoise_NaN)
  then show ?thesis using r h0 lm by (simp add: ssb_result_def)
qed


lemma noise_map_head:
  "noise_map amp (Some s # xs) u ! 0 =
     Some (jadd s (jmul (jmul amp (jsqrt (jmul (Num (- 2)) (jlog (Num (u 0))))))
                     (jcos (jmul (Num (2 * pi)) (Num (u 1))))))"
  by (simp add: Let_def)

lemma am_signal_is_infinite:
  "\<exists>r. generateSignal ''am'' constructor zero_draws = Inr r \<and> realSignal r ! 0 = Some PInf"
proof -
  have len: "array_length (numSamples constructor) = Inr 44100"
    by (simp add: constructor_def array_length_def)
  from generateTimeArray_Inr [OF len] obtain t where
    t: "generateTimeArray constructor = Inr t" "length t = 44100"
    "\<forall>i<44100. t ! i = Some (jdiv (Num (real i)) (sampleRate constructor))" by blast
  define f where "f = (\<lambda>i::nat. (1 + 0.5 * cos (2 * pi * 100 * (real i / 44100)))
                           * cos (2 * pi * 1000 * (real i / 44100)))"
  define carrier where "carrier = js_map (cos_wave (carrierFreq constructor)) t"
  define message where "message = js_map (cos_wave (messageFreq constructor)) t"
  define modulatedSignal where "modulatedSignal =
    js_mapi (\<lambda>t i. jmul (jadd (Num 1) (jmul (modulationIndex constructor)
                                          (to_number (js_get message i))))
                       (to_number (js_get carrier i))) t"
  have tv: "t ! i = Some (Num (real i / 44100))" if "i < 44100" for i
    using that t(3) by (simp add: constructor_def)
  define xs where "xs = map f [0..<44100]"
  have lx: "length xs = 44100" by (simp add: xs_def)
  have m: "modulatedSignal = map (\<lambda>x. Some (Num x)) xs"
  proof (rule nth_equalityI)
    show "length modulatedSignal = length (map (\<lambda>x. Some (Num x)) xs)"
      by (simp add: modulatedSignal_def t(2) lx)
  next
    fix i assume "i < length modulatedSignal"
    then have i: "i < 44100" by (simp add: modulatedSignal_def t(2))
    then show "modulatedSignal ! i = map (\<lambda>x. Some (Num x)) xs ! i"
      using tv [OF i] t(2)
      by (simp add: modulatedSignal_def js_mapi_def js_get_def carrier_def message_def
          js_map_def cos_wave_def f_def xs_def constructor_def)
  qed
  have r: "generateSignal ''am'' constructor zero_draws
           = Inr \<lparr> time = t, realSignal = addNoise modulatedSignal (snr constructor) zero_draws,
                   imagSignal = replicate 44100 (Some (Num 0)), constellation = None \<rparr>"
    by (simp add: generateSignal_def generateAM_def t(1) len Let_def modulatedSignal_def
        carrier_def message_def)
  have up: "[0..<44100] = 0 # [Suc 0..<44100]" by (rule upt_conv_Cons) simp
  have f0: "f 0 = 3 / 2" by (simp add: f_def)
  define rest where "rest = map f [Suc 0..<44100]"
  have mf: "xs = 3 / 2 # rest"
    unfolding rest_def xs_def by (subst up) (simp add: f0)
  define S where "S = sum_list (map (\<lambda>x. x * x) xs)"
  have "S = 9 / 4 + sum_list (map (\<lambda>x. x * x) rest)" by (simp add: S_def mf)
  then have S: "0 < S" using sum_list_squares_nonneg [of rest] by linarith
  have amp: "noise_amplitude modulatedSignal (snr constructor)
             = Num (sqrt (S / 44100 / 10 powr 2))"
    using S by (simp add: noise_amplitude_def m sum_squares_Num S_def [symmetric]
        constructor_def Let_def lx)
  have pos: "0 < sqrt (S / 44100 / 10 powr 2)" using S by simp
  have ms: "modulatedSignal = Some (Num (3 / 2)) # map (\<lambda>x. Some (Num x)) rest"
    by (simp add: m mf)
  have "addNoise modulatedSignal (snr constructor) zero_draws ! 0
        = noise_map (Num (sqrt (S / 44100 / 10 powr 2))) modulatedSignal zero_draws ! 0"
    by (simp only: addNoise_def amp)
  also have "\<dots> = Some PInf"
    unfolding ms noise_map_head using pos by (simp add: zero_draws_def)
  finally show ?thesis using r by simp
qed

text \<open>
  Claim C6 does not hold of the code. For \<open>'lsb'\<close> (and the other single-sideband kinds)
  the holes that \<open>approximateHilbertTransform\<close> leaves at the indices 0, 1 and 2 make the
  first three modulated samples NaN, the signal power NaN, and with it every sample of
  the real sequence, whatever the draws; the imaginary sequence keeps the holes. For
  \<open>'am'\<close>, a draw \<open>u1 = 0\<close> makes \<open>Math.log(u1)\<close> \<open>-Infinity\<close> and the sample \<open>Infinity\<close>.
\<close>

theorem generated_samples_not_finite:
  "(\<exists>r. generateSignal ''lsb'' constructor u = Inr r
        \<and> length (realSignal r) = 44100
        \<and> realSignal r ! 0 = Some NaN
        \<and> realSignal r ! 22050 = Some NaN
        \<and> realSignal r ! 44099 = Some NaN
        \<and> \<not> is_finite (to_number (realSignal r ! 22050))
        \<and> imagSignal r ! 0 = None)
   \<and> (\<exists>r. generateSignal ''am'' constructor zero_draws = Inr r
        \<and> realSignal r ! 0 = Some PInf
        \<and> \<not> is_finite (to_number (realSignal r ! 0)))"
proof -
  from lsb_signal_is_NaN [of u] obtain r where
    "generateSignal ''lsb'' constructor u = Inr r" "length (realSignal r) = 44100"
    "realSignal r ! 0 = Some NaN" "realSignal r ! 22050 = Some NaN"
    "realSignal r ! 44099 = Some NaN" "imagSignal r ! 0 = None" by blast
  moreover from am_signal_is_infinite obtain r' where
    "generateSignal ''am'' constructor zero_draws = Inr r'" "realSignal r' ! 0 = Some PInf"
    by blast
  ultimately show ?thesis by simp
qed

subsection \<open>computeFFT\<close>

lemma length_fft_window [simp]: "length (fft_window signal) = fftSize"
  by (simp add: fft_window_def Let_def)

lemma nth_fft_window:
  "i < fftSize \<Longrightarrow>
   fft_window signal ! i =
     (if i * (length signal div fftSize) < length signal
      then signal ! (i * (length signal div fftSize)) else Some (Num 0))"
  by (simp add: fft_window_def Let_def nth_fill_cond js_get_def)

lemma fft_foldl:
  "foldl (fft_step g fft) (a, b) js =
     (foldl (\<lambda>a k. a[k := Some (case dft_bin fft k of (re, im) \<Rightarrow>
                 jdiv (jsqrt (jadd (jmul re re) (jmul im im))) (Num (real fftSize)))]) a js,
      foldl (\<lambda>b k. b[k := Some (jdiv (jmul (Num (real k)) (sampleRate g))
                                   (Num (real fftSize)))]) b js)"
  by (induction js arbitrary: a b) (simp_all add: fft_step_def split: prod.splits)

lemma computeFFT_eq:
  "computeFFT g signal =
     \<lparr> magnitude = map (\<lambda>k. Some (case dft_bin (fft_window signal) k of (re, im) \<Rightarrow>
                 jdiv (jsqrt (jadd (jmul re re) (jmul im im))) (Num (real fftSize))))
                   [0..<fftSize div 2],
       frequencies = map (\<lambda>k. Some (jdiv (jmul (Num (real k)) (sampleRate g))
                                   (Num (real fftSize)))) [0..<fftSize div 2] \<rparr>"
  by (simp add: computeFFT_def Let_def fft_foldl fill_all)






text \<open>
  Claim C7 does not hold of the code. For a signal shorter than \<open>fftSize\<close> the
  \<open>downsampleFactor\<close> is 0, so every \<open>originalIndex\<close> is 0 and every window entry is
  overwritten with \<open>signal[0]\<close>: for the signal \<open>[1, 2, 3]\<close> the window is 1 at index 1
  (not 2) and 1 at the indices 3 and 1023 (not 0). A spectrum of \<open>fftSize / 2\<close> bins is
  returned all the same.
\<close>

theorem short_input_not_zero_padded:
  "length [Some (Num 1), Some (Num 2), Some (Num 3)] < fftSize
   \<and> fft_window [Some (Num 1), Some (Num 2), Some (Num 3)] ! 1 = Some (Num 1)
   \<and> fft_window [Some (Num 1), Some (Num 2), Some (Num 3)] ! 3 = Some (Num 1)
   \<and> fft_window [Some (Num 1), Some (Num 2), Some (Num 3)] ! 1023 = Some (Num 1)
   \<and> length (magnitude (computeFFT constructor [Some (Num 1), Some (Num 2), Some (Num 3)]))
       = fftSize div 2"
  by (simp add: nth_fft_window computeFFT_eq fftSize_def)

subsection \<open>estimateBandwidth\<close>

lemma upt6: "[0..<6] = [0, 1, 2, 3, 4, 5]"
  by (simp add: upt_rec)

text \<open>
  Claim C4 does not hold of the code. The scan starts \<open>minFreq\<close> and \<open>maxFreq\<close> at
  \<open>frequencies[0]\<close>, so the first bin takes part in the span whether or not its magnitude
  exceeds the threshold. For the spectrum with a single peak at 10 Hz the only bin above
  the threshold is the one at 10 Hz: the span over exactly those bins is 0, so the
  theoretical value 100 (BPSK at 100 symbols per second) is due; the source measures
  \<open>10 - 0 = 10\<close>, which passes the test, and returns 10.
\<close>

theorem estimateBandwidth_includes_first_bin:
  "estimateBandwidth (Some single_peak) ''bpsk'' (Num 100) = Num 10
   \<and> estimateBandwidth_spec single_peak ''bpsk'' (Num 100) = Num 100
   \<and> theoretical_bandwidth ''bpsk'' (Num 100) = Num 100
   \<and> above_threshold single_peak = [Num 10]"
proof -
  have peak: "math_max (magnitude single_peak) = Num 1"
    by (simp add: math_max_def single_peak_def jmax_def)
  have m: "measuredBandwidth single_peak = Num 10"
    by (simp add: measuredBandwidth_def peak Let_def)
       (simp add: single_peak_def upt6 span_step_def js_get_def jgt_def jmin_def jmax_def
          jsub_def)
  have a: "above_threshold single_peak = [Num 10]"
    by (simp add: above_threshold_def peak)
       (simp add: single_peak_def upt6 js_get_def jgt_def)
  have ms: "measuredBandwidth_spec single_peak = Num 0"
    by (simp add: measuredBandwidth_spec_def a jsub_def)
  have l: "last_frequency single_peak = Num 50"
    by (simp add: last_frequency_def single_peak_def js_get_def)
  have t: "theoretical_bandwidth ''bpsk'' (Num 100) = Num 100"
    by (simp add: theoretical_bandwidth_def)
  show ?thesis
    by (simp add: estimateBandwidth_def estimateBandwidth_spec_def m ms l t a jgt_def)
qed

subsection \<open>estimateSnr\<close>





lemma length_detrend [simp]: "length (detrend signal) = length signal"
  by (simp add: detrend_def)














end
